theory Spec2Isabelle
  imports Main "HOL-Library.Sublist"
begin

section \<open>Python values and strings\<close>

text \<open>
  The lead records of \<^verbatim>\<open>robust_sync.py\<close> are Python dictionaries whose values are
  strings, integers (\<^verbatim>\<open>communications_count\<close>, \<^verbatim>\<open>agent_score\<close>) or \<^verbatim>\<open>None\<close>.
  A string is a list of characters with code points below 256.
\<close>

datatype pyval = PNone | PInt int | PStr string

datatype py_error = TypeError | ImportError | OtherError

text \<open>Truthiness, as tested by \<^verbatim>\<open>if x\<close> and \<^verbatim>\<open>not x\<close>.\<close>

fun truthy :: "pyval \<Rightarrow> bool" where
  "truthy PNone = False"
| "truthy (PInt n) = (n \<noteq> 0)"
| "truthy (PStr s) = (s \<noteq> [])"

definition digit_char :: "nat \<Rightarrow> char" where
  "digit_char d = char_of (48 + d)"

fun digits :: "nat \<Rightarrow> string" where
  "digits n = (if n < 10 then [digit_char n] else digits (n div 10) @ [digit_char (n mod 10)])"

declare digits.simps [simp del]

text \<open>\<^verbatim>\<open>str(x)\<close>.\<close>

fun py_str :: "pyval \<Rightarrow> string" where
  "py_str PNone = ''None''"
| "py_str (PInt n) = (if n < 0 then CHR ''-'' # digits (nat (- n)) else digits (nat n))"
| "py_str (PStr s) = s"

text \<open>
  \<^verbatim>\<open>str.lower()\<close> on code points below 256: the ASCII capitals and the Latin-1
  capitals (192 to 222 without the multiplication sign 215) move up by 32.
\<close>

definition lower_char :: "char \<Rightarrow> char" where
  "lower_char c =
     (let n = (of_char c :: nat)
      in if (65 \<le> n \<and> n \<le> 90) \<or> (192 \<le> n \<and> n \<le> 222 \<and> n \<noteq> 215)
         then char_of (n + 32) else c)"

definition lower :: "string \<Rightarrow> string" where
  "lower s = map lower_char s"

text \<open>The substring test \<^verbatim>\<open>sub in s\<close> on strings.\<close>

fun py_in :: "string \<Rightarrow> string \<Rightarrow> bool" where
  "py_in sub [] = (sub = [])"
| "py_in sub (c # cs) = (prefix sub (c # cs) \<or> py_in sub cs)"

text \<open>The comparisons \<^verbatim>\<open>x == k\<close> and \<^verbatim>\<open>x > k\<close> against an integer literal. Ordering
  a string or \<^verbatim>\<open>None\<close> against an integer raises \<^verbatim>\<open>TypeError\<close>; equality never raises.\<close>

fun py_eq_int :: "pyval \<Rightarrow> int \<Rightarrow> bool" where
  "py_eq_int (PInt n) k = (n = k)"
| "py_eq_int _ k = False"

fun py_gt_int :: "pyval \<Rightarrow> int \<Rightarrow> py_error + bool" where
  "py_gt_int (PInt n) k = Inr (n > k)"
| "py_gt_int _ k = Inl TypeError"

section \<open>Agent scorer\<close>

text \<open>Lines 134 to 142 of \<^verbatim>\<open>score_sales_agent\<close>: the first \<^verbatim>\<open>if\<close>/\<^verbatim>\<open>elif\<close>/\<^verbatim>\<open>else\<close> chain,
  which overwrites the initial pair \<^verbatim>\<open>(5, "Standard performance")\<close>.\<close>

definition base_scoring :: "pyval \<Rightarrow> int \<times> string" where
  "base_scoring communications_count =
     (if py_eq_int communications_count 0 then (3, ''No response from agent yet'')
      else if py_eq_int communications_count 1 then (6, ''Initial contact made, needs follow-up'')
      else (8, ''Active communication maintained''))"

text \<open>Line 145: \<^verbatim>\<open>status = str(lead_status).lower() if lead_status else ''\<close>.\<close>

definition status_of :: "pyval \<Rightarrow> string" where
  "status_of lead_status = (if truthy lead_status then lower (py_str lead_status) else [])"

text \<open>The body of the \<^verbatim>\<open>try\<close> block. The comparison \<^verbatim>\<open>communications_count > 0\<close> is only
  evaluated when \<^verbatim>\<open>'confirmed'\<close> is absent and \<^verbatim>\<open>'new'\<close> is present.\<close>

definition score_body :: "pyval \<Rightarrow> pyval \<Rightarrow> py_error + (int \<times> string)" where
  "score_body communications_count lead_status =
     (let (score, recommendation) = base_scoring communications_count;
          status = status_of lead_status
      in if py_in ''confirmed'' status
         then Inr (min 10 (score + 2), ''Lead successfully converted'')
         else if py_in ''new'' status
         then (case py_gt_int communications_count 0 of
                 Inl e \<Rightarrow> Inl e
               | Inr b \<Rightarrow> if b then Inr (max 1 (score - 1), ''Response needed for new lead'')
                          else Inr (score, recommendation))
         else Inr (score, recommendation))"

text \<open>The \<^verbatim>\<open>except Exception\<close> handler turns every error into the fixed fallback.\<close>

definition score_sales_agent :: "pyval \<Rightarrow> pyval \<Rightarrow> int \<times> string" where
  "score_sales_agent communications_count lead_status =
     (case score_body communications_count lead_status of
        Inl e \<Rightarrow> (5, ''Error calculating score'')
      | Inr r \<Rightarrow> r)"

section \<open>Dictionaries and the external calls\<close>

text \<open>\<^verbatim>\<open>d.get(key, default)\<close> on a dictionary.\<close>

definition dict_get :: "('k \<rightharpoonup> 'v) \<Rightarrow> 'k \<Rightarrow> 'v \<Rightarrow> 'v" where
  "dict_get d k dflt = (case d k of None \<Rightarrow> dflt | Some v \<Rightarrow> v)"

type_synonym lead = "string \<rightharpoonup> pyval"

text \<open>\<^verbatim>\<open>sep.join(xs)\<close>.\<close>

fun join :: "string \<Rightarrow> string list \<Rightarrow> string" where
  "join sep [] = []"
| "join sep [x] = x"
| "join sep (x # y # ys) = x @ sep @ join sep (y # ys)"

text \<open>
  The calls that leave the process are recorded in the order in which they are made;
  what they answer is a parameter of each function. The body of an HTTP response is
  what \<^verbatim>\<open>response.json()\<close> makes of it: it raises, it yields a JSON object, or it
  yields some other JSON value.
\<close>

datatype io_call = PathExists string | OpenJson string | Import string | HttpGet string

datatype json_body = JsonInvalid | JsonNotObject | JsonObject "string \<rightharpoonup> pyval"

datatype http_outcome = TransportError | Response int json_body

section \<open>Prerequisite checker\<close>

datatype import_outcome = Imported | ImportFailed | ImportRaisedOther

record prereq_env =
  file_exists :: bool
  json_loads :: bool
  importable :: "string \<Rightarrow> import_outcome"
  google_get :: http_outcome

definition SERVICE_ACCOUNT_FILE :: string where
  "SERVICE_ACCOUNT_FILE = ''/home/ubuntu/service_account.json''"

definition required_packages :: "string list" where
  "required_packages = [''gspread'', ''google'', ''requests'']"

text \<open>Lines 62 to 68: the loop over the packages. \<^verbatim>\<open>ImportError\<close> returns false at once;
  any other exception of the import reaches the outer handler, which returns false
  too. The result is whether the loop ran to its end, and the calls made.\<close>

fun import_loop :: "(string \<Rightarrow> import_outcome) \<Rightarrow> string list \<Rightarrow> io_call list \<Rightarrow> bool \<times> io_call list" where
  "import_loop imp [] calls = (True, calls)"
| "import_loop imp (package # rest) calls =
     (case imp package of
        Imported \<Rightarrow> import_loop imp rest (calls @ [Import package])
      | ImportFailed \<Rightarrow> (False, calls @ [Import package])
      | ImportRaisedOther \<Rightarrow> (False, calls @ [Import package]))"

text \<open>Lines 41 to 87. A response with a status other than 200 is only logged as a
  warning; the check fails when \<^verbatim>\<open>requests.get\<close> raises.\<close>

definition check_prerequisites :: "prereq_env \<Rightarrow> bool \<times> io_call list" where
  "check_prerequisites env =
     (if \<not> file_exists env then (False, [PathExists SERVICE_ACCOUNT_FILE])
      else if \<not> json_loads env
      then (False, [PathExists SERVICE_ACCOUNT_FILE, OpenJson SERVICE_ACCOUNT_FILE])
      else (case import_loop (importable env) required_packages
                   [PathExists SERVICE_ACCOUNT_FILE, OpenJson SERVICE_ACCOUNT_FILE] of
              (False, calls) \<Rightarrow> (False, calls)
            | (True, calls) \<Rightarrow>
                (case google_get env of
                   TransportError \<Rightarrow> (False, calls @ [HttpGet ''https://www.google.com''])
                 | Response status_code body \<Rightarrow>
                     (True, calls @ [HttpGet ''https://www.google.com'']))))"

section \<open>Geolocation resolver\<close>

record geo =
  country :: pyval
  region :: pyval
  city :: pyval

definition all_na :: geo where
  "all_na = \<lparr>country = PStr ''N/A'', region = PStr ''N/A'', city = PStr ''N/A''\<rparr>"

definition geo_url :: "pyval \<Rightarrow> string" where
  "geo_url ip_address = ''https://ipapi.co/'' @ py_str ip_address @ ''/json/''"

text \<open>Lines 164 to 181, the \<^verbatim>\<open>try\<close> block: \<open>Inl\<close> is an exception raised inside it,
  \<open>Inr (Some r)\<close> the \<^verbatim>\<open>return result\<close> of line 176, \<open>Inr None\<close> falling out of the
  block after the warning about the status.\<close>

definition geo_try :: "http_outcome \<Rightarrow> py_error + geo option" where
  "geo_try outcome =
     (case outcome of
        TransportError \<Rightarrow> Inl OtherError
      | Response status_code body \<Rightarrow>
          if status_code = 200
          then (case body of
                  JsonInvalid \<Rightarrow> Inl OtherError
                | JsonNotObject \<Rightarrow> Inl OtherError
                | JsonObject data \<Rightarrow>
                    Inr (Some \<lparr>country = dict_get data ''country_name'' (PStr ''N/A''),
                               region = dict_get data ''region'' (PStr ''N/A''),
                               city = dict_get data ''city'' (PStr ''N/A'')\<rparr>))
          else Inr None)"

definition get_ip_geolocation :: "(string \<Rightarrow> http_outcome) \<Rightarrow> pyval \<Rightarrow> geo \<times> io_call list" where
  "get_ip_geolocation requests_get ip_address =
     (if \<not> truthy ip_address \<or> ip_address = PStr ''N/A'' then (all_na, [])
      else (case geo_try (requests_get (geo_url ip_address)) of
              Inr (Some result) \<Rightarrow> (result, [HttpGet (geo_url ip_address)])
            | Inr None \<Rightarrow> (all_na, [HttpGet (geo_url ip_address)])
            | Inl e \<Rightarrow> (all_na, [HttpGet (geo_url ip_address)])))"

section \<open>Profitability checker\<close>

text \<open>Lines 187 to 206. With a dictionary as argument nothing in the \<^verbatim>\<open>try\<close> block
  raises, so the handler's "Error checking profitability" is never returned.\<close>

definition check_profitability :: "lead \<Rightarrow> string" where
  "check_profitability lead_data =
     (let pax = lower (py_str (dict_get lead_data ''pax'' (PStr [])));
          flags1 = (if pax = ''1'' \<or> py_in ''solo'' pax then [''Solo traveler (1 PAX)''] else []);
          client_name = lower (py_str (dict_get lead_data ''client_name'' (PStr [])));
          flags2 = (if py_in ''shore'' client_name \<or> py_in ''excursion'' client_name
                    then flags1 @ [''Shore excursion''] else flags1);
          flags3 = (if py_in ''day trip'' client_name \<or> py_in ''half day'' client_name
                    then flags2 @ [''Short duration trip''] else flags2)
      in if flags3 \<noteq> [] then join ''; '' flags3 else ''No issues identified'')"

section \<open>The worksheet\<close>

text \<open>
  The spreadsheet backend is an external collaborator. A worksheet is the list of its
  rows, cells being kept and read back as they were written. Of its operations:
  \<^verbatim>\<open>clear()\<close> leaves no row, \<^verbatim>\<open>insert_row(values, 1)\<close> puts a row in front,
  \<^verbatim>\<open>append_rows(rows)\<close> adds rows at the end, and \<^verbatim>\<open>get_all_records()\<close> reads the first
  row as the keys and every later row as a dictionary from those keys to its cells (it
  refuses a header row with a repeated key). A call of the backend may also fail on its
  own; whether it does is a parameter.
\<close>

type_synonym row = "pyval list"

type_synonym worksheet = "row list"

definition get_all_records :: "worksheet \<Rightarrow> py_error + (pyval \<rightharpoonup> pyval) list" where
  "get_all_records ws =
     (case ws of
        [] \<Rightarrow> Inr []
      | keys # rows \<Rightarrow>
          if distinct keys then Inr (map (\<lambda>r. map_of (zip keys r)) rows) else Inl OtherError)"

section \<open>Header initializer\<close>

text \<open>Lines 36 to 107 of \<^verbatim>\<open>exact_order_sheet_setup.py\<close>.\<close>

definition exact_order_headers :: "string list" where
  "exact_order_headers = [
      ''#'', ''Hub'', ''Client Name'', ''Nationality'', ''Email'', ''Operator'',
      ''File Status'', ''Arrival'', ''Departure'', ''Pax'', ''Lead / Operation'',
      ''Request Channel'', ''Communication'', ''Medium'', ''Offered Income'',
      ''Offered Income (USD)'', ''Actual Paid Amount'', ''Actual Paid Amount (USD)'',
      ''Remaining Payment'', ''Remaining Payment (USD)'', ''Submission Date'',
      ''Confirmation Date'', ''Company'', ''Department'', ''Product Title'',
      ''UTM Campaign'', ''Initial Price'', ''Device Type'', ''Client Phone'', ''File No'',
      ''Request Token'', ''Sales Person'', ''Request Status'', ''Source'', ''VIP Status'',
      ''Loyalty Program'', ''Group'', ''Has Int. Flight'', ''Single Room'',
      ''Double Room'', ''Triple Room'', ''Family Room'', ''Int.Flight Amount'',
      ''Int.Flight Currency'', ''Agent / Group Discount'', ''Agent Score'',
      ''Agent Recommendation'', ''IP Country'', ''IP State/Region'', ''IP City'',
      ''Profitability Flag'', ''Communication Count'', ''Last Updated'', ''Lead ID'',
      ''Lead URL'']"

text \<open>The call of the backend that raises, if any. The handlers of lines 154 to 157
  print a message; the rows written before the failing call stay.\<close>

datatype setup_fault = NoFault | OpenFault | ClearFault | InsertFault | FormatFault

definition setup_exact_order_headers :: "setup_fault \<Rightarrow> worksheet \<Rightarrow> worksheet" where
  "setup_exact_order_headers fault ws =
     (case fault of
        OpenFault \<Rightarrow> ws
      | ClearFault \<Rightarrow> ws
      | InsertFault \<Rightarrow> []
      | FormatFault \<Rightarrow> map PStr exact_order_headers # []
      | NoFault \<Rightarrow> map PStr exact_order_headers # [])"

section \<open>Sync orchestrator\<close>

text \<open>Lines 337 to 393: the row of one lead.\<close>

definition row_data :: "lead \<Rightarrow> row" where
  "row_data lead =
     (let g = (\<lambda>k. dict_get lead k (PStr []))
      in [
        g ''row_number'', g ''hub'', g ''client_name'', g ''nationality'', g ''email'',
        g ''operator'', g ''file_status'', g ''arrival'', g ''departure'', g ''pax'',
        g ''lead_operation'', g ''request_channel'', g ''communication'', g ''medium'',
        g ''offered_income'', g ''offered_income_usd'', g ''actual_paid_amount'',
        g ''actual_paid_amount_usd'', g ''remaining_payment'', g ''remaining_payment_usd'',
        g ''submission_date'', g ''confirmation_date'', g ''company'', g ''department'',
        g ''product_title'', g ''utm_campaign'', g ''initial_price'', g ''device_type'',
        g ''client_phone'', g ''file_no'', g ''request_token'', g ''sales_person'',
        g ''request_status'', g ''source'', g ''vip_status'', g ''loyalty_program'',
        g ''group'', g ''has_int_flight'', g ''single_room'', g ''double_room'',
        g ''triple_room'', g ''family_room'', g ''int_flight_amount'',
        g ''int_flight_currency'', g ''agent_group_discount'', g ''agent_score'',
        g ''agent_recommendation'', g ''ip_country'', g ''ip_region'', g ''ip_city'',
        g ''profitability_flag'', g ''communications_count'', g ''last_updated'',
        g ''lead_id'', g ''lead_url''])"

record sync_api =
  read_fails :: bool
  append_fails :: bool

text \<open>Lines 322 to 328: the tokens read from the sheet; a failed read gives the empty set.\<close>

definition read_existing :: "sync_api \<Rightarrow> worksheet \<Rightarrow> py_error + (pyval \<rightharpoonup> pyval) list" where
  "read_existing api ws = (if read_fails api then Inl OtherError else get_all_records ws)"

definition existing_tokens :: "sync_api \<Rightarrow> worksheet \<Rightarrow> pyval set" where
  "existing_tokens api ws =
     (case read_existing api ws of
        Inl e \<Rightarrow> {}
      | Inr existing_data \<Rightarrow>
          (\<lambda>row. dict_get row (PStr ''Request Token'') (PStr [])) ` set existing_data)"

text \<open>Lines 333 to 398: the loop over the leads, with \<^verbatim>\<open>new_rows\<close> and \<^verbatim>\<open>updated_count\<close>
  as accumulators. The set of tokens is not changed inside the loop.\<close>

fun sync_loop :: "pyval set \<Rightarrow> lead list \<Rightarrow> row list \<times> int \<Rightarrow> row list \<times> int" where
  "sync_loop tokens [] acc = acc"
| "sync_loop tokens (lead # leads) (new_rows, updated_count) =
     (let request_token = dict_get lead ''request_token'' (PStr [])
      in if request_token \<notin> tokens
         then sync_loop tokens leads (new_rows @ [row_data lead], updated_count + 1)
         else sync_loop tokens leads (new_rows, updated_count))"

text \<open>The outcome of one call: the sheet afterwards, the rows handed to
  \<^verbatim>\<open>append_rows\<close> (none when it is not called) and the returned count.\<close>

record sync_result =
  sheet_after :: "worksheet option"
  batch :: "row list"
  returned :: int

text \<open>Lines 312 to 416. A failed \<^verbatim>\<open>append_rows\<close> leaves the sheet as it was.\<close>

definition sync_to_google_sheets :: "sync_api \<Rightarrow> worksheet option \<Rightarrow> lead list \<Rightarrow> sync_result" where
  "sync_to_google_sheets api sheet leads_data =
     (case sheet of
        None \<Rightarrow> \<lparr>sheet_after = None, batch = [], returned = 0\<rparr>
      | Some ws \<Rightarrow>
          (case sync_loop (existing_tokens api ws) leads_data ([], 0) of
             (new_rows, updated_count) \<Rightarrow>
               if new_rows \<noteq> []
               then (if append_fails api
                     then \<lparr>sheet_after = Some ws, batch = new_rows, returned = 0\<rparr>
                     else \<lparr>sheet_after = Some (ws @ new_rows), batch = new_rows,
                            returned = updated_count\<rparr>)
               else \<lparr>sheet_after = Some ws, batch = [], returned = updated_count\<rparr>))"

text \<open>The request tokens of a sheet, as the sync step reads them.\<close>

definition sheet_tokens :: "worksheet \<Rightarrow> pyval list" where
  "sheet_tokens ws =
     (case get_all_records ws of
        Inl e \<Rightarrow> []
      | Inr existing_data \<Rightarrow>
          map (\<lambda>row. dict_get row (PStr ''Request Token'') (PStr [])) existing_data)"


section \<open>Properties of strings\<close>

lemma py_in_sublist: "py_in sub s = sublist sub s"
  by (induction s) (auto simp: sublist_Cons_right)

text \<open>Containment in the lower-cased string is case-insensitive containment: some
  contiguous piece of the string lower-cases to the pattern.\<close>

lemma py_in_lower: "py_in p (lower s) = (\<exists>t. sublist t s \<and> lower t = p)"
proof
  assume "py_in p (lower s)"
  then obtain us vs where "map lower_char s = us @ p @ vs"
    by (auto simp: py_in_sublist sublist_def lower_def)
  then obtain a r where ar: "s = a @ r" "p @ vs = map lower_char r"
    unfolding map_eq_append_conv by blast
  then obtain b c where "r = b @ c" "p = map lower_char b"
    unfolding append_eq_map_conv by blast
  with ar have "s = a @ b @ c" "map lower_char b = p"
    by simp_all
  then show "\<exists>t. sublist t s \<and> lower t = p"
    by (auto simp: sublist_def lower_def)
next
  assume "\<exists>t. sublist t s \<and> lower t = p"
  then obtain t ps ss where "s = ps @ t @ ss" "map lower_char t = p"
    by (auto simp: sublist_def lower_def)
  then have "map lower_char s = map lower_char ps @ p @ map lower_char ss"
    by simp
  then show "py_in p (lower s)"
    unfolding py_in_sublist sublist_def lower_def by blast
qed

lemma status_of_PStr: "status_of (PStr s) = lower s"
  by (simp add: status_of_def lower_def)

section \<open>Properties of the agent scorer\<close>

lemma score_sales_agent_PInt:
  "score_sales_agent (PInt n) st =
     (if py_in ''confirmed'' (status_of st)
      then (min 10 (fst (base_scoring (PInt n)) + 2), ''Lead successfully converted'')
      else if py_in ''new'' (status_of st) \<and> n > 0
      then (max 1 (fst (base_scoring (PInt n)) - 1), ''Response needed for new lead'')
      else base_scoring (PInt n))"
  by (simp add: score_sales_agent_def score_body_def Let_def split: prod.splits)

text \<open>
  C3 (as stated, refuted): a negative \<^verbatim>\<open>communications_count\<close> satisfies
  \<^verbatim>\<open>communications_count <= 0\<close>, yet it is neither \<^verbatim>\<open>== 0\<close> nor \<^verbatim>\<open>== 1\<close>, so the
  \<^verbatim>\<open>else\<close> branch gives it the base score 8, not 3.
\<close>

theorem base_score_negative_count:
  "(- 1 :: int) \<le> 0 \<and> fst (base_scoring (PInt (- 1))) = 8 \<and> fst (base_scoring (PInt (- 1))) \<noteq> 3
   \<and> score_sales_agent (PInt (- 1)) (PStr ''Pending'') = (8, ''Active communication maintained'')"
  by code_simp

text \<open>
  C3 (amended): for every integer \<^verbatim>\<open>communications_count\<close> and every \<^verbatim>\<open>lead_status\<close>, the
  base score before the status adjustment is 3 when the count equals 0, 6 when it equals
  1 and 8 when it is greater than 1; when the status holds neither \<^verbatim>\<open>confirmed\<close> nor
  \<^verbatim>\<open>new\<close> the scorer returns that base pair unchanged.
\<close>

theorem base_score_buckets:
  "(n = 0 \<longrightarrow> base_scoring (PInt n) = (3, ''No response from agent yet''))
   \<and> (n = 1 \<longrightarrow> base_scoring (PInt n) = (6, ''Initial contact made, needs follow-up''))
   \<and> (n > 1 \<longrightarrow> base_scoring (PInt n) = (8, ''Active communication maintained''))
   \<and> (\<not> py_in ''confirmed'' (status_of st) \<and> \<not> py_in ''new'' (status_of st)
        \<longrightarrow> score_sales_agent (PInt n) st = base_scoring (PInt n))"
  by (simp add: score_sales_agent_PInt) (simp add: base_scoring_def)

theorem base_score_buckets_witness:
  "base_scoring (PInt 0) = (3, ''No response from agent yet'')
   \<and> base_scoring (PInt 1) = (6, ''Initial contact made, needs follow-up'')
   \<and> (2 :: int) > 1 \<and> base_scoring (PInt 2) = (8, ''Active communication maintained'')
   \<and> \<not> py_in ''confirmed'' (status_of (PStr ''Pending''))
   \<and> \<not> py_in ''new'' (status_of (PStr ''Pending''))
   \<and> score_sales_agent (PInt 2) (PStr ''Pending'') = (8, ''Active communication maintained'')"
proof -
  have h: "\<not> py_in ''confirmed'' (status_of (PStr ''Pending''))"
          "\<not> py_in ''new'' (status_of (PStr ''Pending''))"
    by code_simp+
  show ?thesis
    using h base_score_buckets [of 0 "PStr ''Pending''"] base_score_buckets [of 1 "PStr ''Pending''"]
      base_score_buckets [of 2 "PStr ''Pending''"]
    by simp
qed

text \<open>
  C4: for an integer \<^verbatim>\<open>communications_count\<close> and a string \<^verbatim>\<open>lead_status\<close>: when the
  lower-cased status contains \<^verbatim>\<open>confirmed\<close> the result is \<^verbatim>\<open>min(10, base + 2)\<close> with
  "Lead successfully converted", whether or not it also contains \<^verbatim>\<open>new\<close>; otherwise,
  when it contains \<^verbatim>\<open>new\<close> and the count is positive, the result is \<^verbatim>\<open>max(1, base - 1)\<close>
  with "Response needed for new lead".
\<close>

theorem status_adjustment:
  "(py_in ''confirmed'' (lower s) \<longrightarrow>
      score_sales_agent (PInt n) (PStr s) =
        (min 10 (fst (base_scoring (PInt n)) + 2), ''Lead successfully converted''))
   \<and> (\<not> py_in ''confirmed'' (lower s) \<and> py_in ''new'' (lower s) \<and> n > 0 \<longrightarrow>
      score_sales_agent (PInt n) (PStr s) =
        (max 1 (fst (base_scoring (PInt n)) - 1), ''Response needed for new lead''))"
  by (simp add: score_sales_agent_PInt status_of_PStr)

theorem status_adjustment_witness:
  "py_in ''confirmed'' (lower ''Confirmed (was NEW)'') \<and> py_in ''new'' (lower ''Confirmed (was NEW)'')
   \<and> score_sales_agent (PInt 5) (PStr ''Confirmed (was NEW)'') = (10, ''Lead successfully converted'')
   \<and> \<not> py_in ''confirmed'' (lower ''New Request'') \<and> py_in ''new'' (lower ''New Request'')
   \<and> (1 :: int) > 0
   \<and> score_sales_agent (PInt 1) (PStr ''New Request'') = (5, ''Response needed for new lead'')"
proof -
  have h: "py_in ''confirmed'' (lower ''Confirmed (was NEW)'')"
          "py_in ''new'' (lower ''Confirmed (was NEW)'')"
          "\<not> py_in ''confirmed'' (lower ''New Request'')"
          "py_in ''new'' (lower ''New Request'')"
    by code_simp+
  have b: "fst (base_scoring (PInt 5)) = 8" "fst (base_scoring (PInt 1)) = 6"
    by (simp_all add: base_scoring_def)
  show ?thesis
    using h b status_adjustment [of "''Confirmed (was NEW)''" 5]
      status_adjustment [of "''New Request''" 1]
    by simp
qed

text \<open>
  C10: for every integer \<^verbatim>\<open>communications_count\<close> and every \<^verbatim>\<open>lead_status\<close> (a string, an
  integer or \<^verbatim>\<open>None\<close>) the scorer never returns the initial pair
  \<^verbatim>\<open>(5, "Standard performance")\<close>; the score is one of 3, 5, 6, 7, 8, 10 and the
  recommendation is one of the five documented strings.
\<close>

theorem score_never_default:
  "score_sales_agent (PInt n) st \<noteq> (5, ''Standard performance'')
   \<and> fst (score_sales_agent (PInt n) st) \<in> {3, 5, 6, 7, 8, 10}
   \<and> snd (score_sales_agent (PInt n) st) \<in>
       {''No response from agent yet'', ''Initial contact made, needs follow-up'',
        ''Active communication maintained'', ''Lead successfully converted'',
        ''Response needed for new lead''}"
  by (simp add: score_sales_agent_PInt base_scoring_def)

section \<open>Properties of the prerequisite checker\<close>

lemma import_loop_all_imported:
  "\<forall>p\<in>set ps. imp p = Imported \<Longrightarrow> import_loop imp ps calls = (True, calls @ map Import ps)"
  by (induction ps arbitrary: calls) simp_all

lemma import_loop_some_failed:
  "\<exists>p\<in>set ps. imp p \<noteq> Imported \<Longrightarrow>
     \<exists>qs p. import_loop imp ps calls = (False, calls @ map Import qs @ [Import p])
       \<and> imp p \<noteq> Imported \<and> prefix (qs @ [p]) ps"
proof (induction ps arbitrary: calls)
  case Nil
  then show ?case by simp
next
  case (Cons a ps)
  show ?case
  proof (cases "imp a = Imported")
    case True
    with Cons.prems have "\<exists>p\<in>set ps. imp p \<noteq> Imported"
      by auto
    from Cons.IH [OF this, of "calls @ [Import a]"] obtain qs p where
      "import_loop imp ps (calls @ [Import a]) = (False, (calls @ [Import a]) @ map Import qs @ [Import p])"
      "imp p \<noteq> Imported" "prefix (qs @ [p]) ps"
      by blast
    with True have "import_loop imp (a # ps) calls = (False, calls @ map Import (a # qs) @ [Import p])
        \<and> imp p \<noteq> Imported \<and> prefix ((a # qs) @ [p]) (a # ps)"
      by simp
    then show ?thesis by blast
  next
    case False
    then have "import_loop imp (a # ps) calls = (False, calls @ map Import [] @ [Import a])
        \<and> imp a \<noteq> Imported \<and> prefix ([] @ [a]) (a # ps)"
      by (cases "imp a") simp_all
    then show ?thesis by blast
  qed
qed

lemma check_prerequisites_true_iff:
  "fst (check_prerequisites env) \<longleftrightarrow>
     file_exists env \<and> json_loads env \<and> (\<forall>p\<in>set required_packages. importable env p = Imported)
     \<and> google_get env \<noteq> TransportError"
proof (cases "\<forall>p\<in>set required_packages. importable env p = Imported")
  case True
  then show ?thesis
    by (simp add: check_prerequisites_def import_loop_all_imported split: http_outcome.splits)
next
  case False
  then have "\<exists>p\<in>set required_packages. importable env p \<noteq> Imported"
    by blast
  from import_loop_some_failed [OF this] obtain cs where
    "import_loop (importable env) required_packages
       [PathExists SERVICE_ACCOUNT_FILE, OpenJson SERVICE_ACCOUNT_FILE] = (False, cs)"
    by blast
  with False show ?thesis
    by (simp add: check_prerequisites_def)
qed

text \<open>
  C5: the checker returns a boolean, and it is false as soon as one check fails: the
  credentials file is missing, or does not load as JSON, or one of the required packages
  does not import, or the request to the known host raises (no answer within the
  timeout, or any other transport error). The checks after the failing one are not
  made: a missing file ends the calls after the existence test, an unreadable file
  after the attempt to load it, and a failing import is the last call, before any
  network request.
\<close>

theorem check_prerequisites_fail_fast:
  "(\<not> file_exists env \<or> \<not> json_loads env
      \<or> (\<exists>p\<in>set required_packages. importable env p \<noteq> Imported)
      \<or> google_get env = TransportError
     \<longrightarrow> fst (check_prerequisites env) = False)
   \<and> (\<not> file_exists env \<longrightarrow>
        check_prerequisites env = (False, [PathExists SERVICE_ACCOUNT_FILE]))
   \<and> (file_exists env \<and> \<not> json_loads env \<longrightarrow>
        check_prerequisites env
          = (False, [PathExists SERVICE_ACCOUNT_FILE, OpenJson SERVICE_ACCOUNT_FILE]))
   \<and> (file_exists env \<and> json_loads env
        \<and> (\<exists>p\<in>set required_packages. importable env p \<noteq> Imported) \<longrightarrow>
        (\<exists>qs p. check_prerequisites env
            = (False, [PathExists SERVICE_ACCOUNT_FILE, OpenJson SERVICE_ACCOUNT_FILE]
                        @ map Import qs @ [Import p])
          \<and> importable env p \<noteq> Imported \<and> prefix (qs @ [p]) required_packages))"
proof (intro conjI impI)
  assume "\<not> file_exists env \<or> \<not> json_loads env
      \<or> (\<exists>p\<in>set required_packages. importable env p \<noteq> Imported)
      \<or> google_get env = TransportError"
  then show "fst (check_prerequisites env) = False"
    unfolding check_prerequisites_true_iff by blast
next
  assume "\<not> file_exists env"
  then show "check_prerequisites env = (False, [PathExists SERVICE_ACCOUNT_FILE])"
    by (simp add: check_prerequisites_def)
next
  assume "file_exists env \<and> \<not> json_loads env"
  then show "check_prerequisites env
      = (False, [PathExists SERVICE_ACCOUNT_FILE, OpenJson SERVICE_ACCOUNT_FILE])"
    by (simp add: check_prerequisites_def)
next
  assume a: "file_exists env \<and> json_loads env
      \<and> (\<exists>p\<in>set required_packages. importable env p \<noteq> Imported)"
  then have "\<exists>p\<in>set required_packages. importable env p \<noteq> Imported"
    by blast
  from import_loop_some_failed [OF this,
      of "[PathExists SERVICE_ACCOUNT_FILE, OpenJson SERVICE_ACCOUNT_FILE]"]
  obtain qs p where
    "import_loop (importable env) required_packages
        [PathExists SERVICE_ACCOUNT_FILE, OpenJson SERVICE_ACCOUNT_FILE]
      = (False, [PathExists SERVICE_ACCOUNT_FILE, OpenJson SERVICE_ACCOUNT_FILE]
                  @ map Import qs @ [Import p])"
    "importable env p \<noteq> Imported" "prefix (qs @ [p]) required_packages"
    by blast
  with a have "check_prerequisites env
        = (False, [PathExists SERVICE_ACCOUNT_FILE, OpenJson SERVICE_ACCOUNT_FILE]
                    @ map Import qs @ [Import p])
      \<and> importable env p \<noteq> Imported \<and> prefix (qs @ [p]) required_packages"
    by (simp add: check_prerequisites_def)
  then show "\<exists>qs p. check_prerequisites env
        = (False, [PathExists SERVICE_ACCOUNT_FILE, OpenJson SERVICE_ACCOUNT_FILE]
                    @ map Import qs @ [Import p])
      \<and> importable env p \<noteq> Imported \<and> prefix (qs @ [p]) required_packages"
    by blast
qed

theorem check_prerequisites_fail_fast_witness:
  "fst (check_prerequisites \<lparr>file_exists = True, json_loads = True,
          importable = (\<lambda>p. Imported), google_get = TransportError\<rparr>) = False
   \<and> check_prerequisites \<lparr>file_exists = False, json_loads = True,
          importable = (\<lambda>p. Imported), google_get = Response 200 JsonInvalid\<rparr>
       = (False, [PathExists SERVICE_ACCOUNT_FILE])
   \<and> check_prerequisites \<lparr>file_exists = True, json_loads = False,
          importable = (\<lambda>p. Imported), google_get = Response 200 JsonInvalid\<rparr>
       = (False, [PathExists SERVICE_ACCOUNT_FILE, OpenJson SERVICE_ACCOUNT_FILE])
   \<and> (\<exists>qs p. check_prerequisites \<lparr>file_exists = True, json_loads = True,
          importable = (\<lambda>p. if p = ''google'' then ImportFailed else Imported),
          google_get = Response 200 JsonInvalid\<rparr>
       = (False, [PathExists SERVICE_ACCOUNT_FILE, OpenJson SERVICE_ACCOUNT_FILE]
                   @ map Import qs @ [Import p])
       \<and> prefix (qs @ [p]) required_packages)"
proof -
  have g: "\<exists>p\<in>set required_packages. (if p = ''google'' then ImportFailed else Imported) \<noteq> Imported"
    by (simp add: required_packages_def)
  show ?thesis
    using g
      check_prerequisites_fail_fast [of "\<lparr>file_exists = True, json_loads = True,
          importable = (\<lambda>p. Imported), google_get = TransportError\<rparr>"]
      check_prerequisites_fail_fast [of "\<lparr>file_exists = False, json_loads = True,
          importable = (\<lambda>p. Imported), google_get = Response 200 JsonInvalid\<rparr>"]
      check_prerequisites_fail_fast [of "\<lparr>file_exists = True, json_loads = False,
          importable = (\<lambda>p. Imported), google_get = Response 200 JsonInvalid\<rparr>"]
      check_prerequisites_fail_fast [of "\<lparr>file_exists = True, json_loads = True,
          importable = (\<lambda>p. if p = ''google'' then ImportFailed else Imported),
          google_get = Response 200 JsonInvalid\<rparr>"]
    by simp blast
qed

section \<open>Properties of the geolocation resolver\<close>

text \<open>
  C6: with the empty string or the string "N/A" the resolver returns the all-"N/A"
  result and makes no call; for every other input, a request that raises and a
  response whose status is not 200 both give the all-"N/A" result. The resolver has no
  error result: every exception of the request is a branch that ends in a value.
\<close>

theorem get_ip_geolocation_degrades:
  "(ip_address = PStr [] \<or> ip_address = PStr ''N/A'' \<longrightarrow>
      get_ip_geolocation requests_get ip_address
        = (\<lparr>country = PStr ''N/A'', region = PStr ''N/A'', city = PStr ''N/A''\<rparr>, []))
   \<and> (requests_get (geo_url ip_address) = TransportError \<longrightarrow>
      fst (get_ip_geolocation requests_get ip_address)
        = \<lparr>country = PStr ''N/A'', region = PStr ''N/A'', city = PStr ''N/A''\<rparr>)
   \<and> (requests_get (geo_url ip_address) = Response status_code body \<and> status_code \<noteq> 200 \<longrightarrow>
      fst (get_ip_geolocation requests_get ip_address)
        = \<lparr>country = PStr ''N/A'', region = PStr ''N/A'', city = PStr ''N/A''\<rparr>)"
  by (auto simp: get_ip_geolocation_def geo_try_def all_na_def)

theorem get_ip_geolocation_degrades_witness:
  "get_ip_geolocation (\<lambda>url. Response 200 JsonInvalid) (PStr [])
     = (\<lparr>country = PStr ''N/A'', region = PStr ''N/A'', city = PStr ''N/A''\<rparr>, [])
   \<and> get_ip_geolocation (\<lambda>url. Response 200 JsonInvalid) (PStr ''N/A'')
     = (\<lparr>country = PStr ''N/A'', region = PStr ''N/A'', city = PStr ''N/A''\<rparr>, [])
   \<and> fst (get_ip_geolocation (\<lambda>url. TransportError) (PStr ''8.8.8.8''))
     = \<lparr>country = PStr ''N/A'', region = PStr ''N/A'', city = PStr ''N/A''\<rparr>
   \<and> (503 :: int) \<noteq> 200
   \<and> fst (get_ip_geolocation (\<lambda>url. Response 503 JsonNotObject) (PStr ''8.8.8.8''))
     = \<lparr>country = PStr ''N/A'', region = PStr ''N/A'', city = PStr ''N/A''\<rparr>"
  using
    get_ip_geolocation_degrades [where ip_address = "PStr []"
      and requests_get = "\<lambda>url. Response 200 JsonInvalid"]
    get_ip_geolocation_degrades [where ip_address = "PStr ''N/A''"
      and requests_get = "\<lambda>url. Response 200 JsonInvalid"]
    get_ip_geolocation_degrades [where ip_address = "PStr ''8.8.8.8''"
      and requests_get = "\<lambda>url. TransportError"]
    get_ip_geolocation_degrades [where ip_address = "PStr ''8.8.8.8''"
      and requests_get = "\<lambda>url. Response 503 JsonNotObject"
      and status_code = 503 and body = JsonNotObject]
  by simp

section \<open>Properties of the profitability checker\<close>

text \<open>
  C7: a record with pax "1" and client name "City Tour" gives "Solo traveler (1 PAX)";
  pax "1" and "Shore Excursion Day Trip" gives all three tags in the order solo, shore
  excursion, short duration; pax "4" and "Grand Nile Cruise" gives "No issues
  identified".
\<close>

theorem check_profitability_examples:
  "check_profitability [''pax'' \<mapsto> PStr ''1'', ''client_name'' \<mapsto> PStr ''City Tour'']
     = ''Solo traveler (1 PAX)''
   \<and> check_profitability
       [''pax'' \<mapsto> PStr ''1'', ''client_name'' \<mapsto> PStr ''Shore Excursion Day Trip'']
     = ''Solo traveler (1 PAX); Shore excursion; Short duration trip''
   \<and> check_profitability [''pax'' \<mapsto> PStr ''4'', ''client_name'' \<mapsto> PStr ''Grand Nile Cruise'']
     = ''No issues identified''"
  by code_simp

section \<open>Properties of the header row and the row builder\<close>

lemma length_exact_order_headers: "length exact_order_headers = 55"
  by (simp add: exact_order_headers_def)

lemma length_row_data: "length (row_data lead) = 55"
  by (simp add: row_data_def)

lemma distinct_exact_order_headers: "distinct (map PStr exact_order_headers)"
  by (simp add: exact_order_headers_def)

text \<open>
  C8: whatever the sheet held before, the header initializer leaves one row, the 55
  header strings in their fixed order; the row of every lead has 55 cells, and cell by
  cell it holds the field that belongs under the header of that column.
\<close>

theorem header_and_row_layout:
  "setup_exact_order_headers NoFault ws = [map PStr exact_order_headers]
   \<and> setup_exact_order_headers FormatFault ws = [map PStr exact_order_headers]
   \<and> length exact_order_headers = 55
   \<and> length (row_data lead) = 55
   \<and> zip exact_order_headers (row_data lead)
       = map (\<lambda>(header, field). (header, dict_get lead field (PStr []))) [
        (''#'', ''row_number''), (''Hub'', ''hub''), (''Client Name'', ''client_name''),
        (''Nationality'', ''nationality''), (''Email'', ''email''),
        (''Operator'', ''operator''), (''File Status'', ''file_status''),
        (''Arrival'', ''arrival''), (''Departure'', ''departure''), (''Pax'', ''pax''),
        (''Lead / Operation'', ''lead_operation''),
        (''Request Channel'', ''request_channel''), (''Communication'', ''communication''),
        (''Medium'', ''medium''), (''Offered Income'', ''offered_income''),
        (''Offered Income (USD)'', ''offered_income_usd''),
        (''Actual Paid Amount'', ''actual_paid_amount''),
        (''Actual Paid Amount (USD)'', ''actual_paid_amount_usd''),
        (''Remaining Payment'', ''remaining_payment''),
        (''Remaining Payment (USD)'', ''remaining_payment_usd''),
        (''Submission Date'', ''submission_date''),
        (''Confirmation Date'', ''confirmation_date''), (''Company'', ''company''),
        (''Department'', ''department''), (''Product Title'', ''product_title''),
        (''UTM Campaign'', ''utm_campaign''), (''Initial Price'', ''initial_price''),
        (''Device Type'', ''device_type''), (''Client Phone'', ''client_phone''),
        (''File No'', ''file_no''), (''Request Token'', ''request_token''),
        (''Sales Person'', ''sales_person''), (''Request Status'', ''request_status''),
        (''Source'', ''source''), (''VIP Status'', ''vip_status''),
        (''Loyalty Program'', ''loyalty_program''), (''Group'', ''group''),
        (''Has Int. Flight'', ''has_int_flight''), (''Single Room'', ''single_room''),
        (''Double Room'', ''double_room''), (''Triple Room'', ''triple_room''),
        (''Family Room'', ''family_room''), (''Int.Flight Amount'', ''int_flight_amount''),
        (''Int.Flight Currency'', ''int_flight_currency''),
        (''Agent / Group Discount'', ''agent_group_discount''),
        (''Agent Score'', ''agent_score''),
        (''Agent Recommendation'', ''agent_recommendation''),
        (''IP Country'', ''ip_country''), (''IP State/Region'', ''ip_region''),
        (''IP City'', ''ip_city''), (''Profitability Flag'', ''profitability_flag''),
        (''Communication Count'', ''communications_count''),
        (''Last Updated'', ''last_updated''), (''Lead ID'', ''lead_id''),
        (''Lead URL'', ''lead_url'')]"
  by (simp add: setup_exact_order_headers_def) (simp add: exact_order_headers_def row_data_def)

section \<open>Properties of the sync orchestrator\<close>

lemma sync_loop_filter:
  "sync_loop tokens leads (new_rows, updated_count) =
     (new_rows @ map row_data
        (filter (\<lambda>lead. dict_get lead ''request_token'' (PStr []) \<notin> tokens) leads),
      updated_count
        + int (length (filter (\<lambda>lead. dict_get lead ''request_token'' (PStr []) \<notin> tokens) leads)))"
  by (induction leads arbitrary: new_rows updated_count) (simp_all add: Let_def)

lemma get_all_records_headers:
  "get_all_records (map PStr exact_order_headers # rows)
     = Inr (map (\<lambda>r. map_of (zip (map PStr exact_order_headers) r)) rows)"
  using distinct_exact_order_headers by (simp add: get_all_records_def)

lemma token_of_row_data:
  "dict_get (map_of (zip (map PStr exact_order_headers) (row_data lead)))
       (PStr ''Request Token'') (PStr [])
     = dict_get lead ''request_token'' (PStr [])"
  by (simp add: exact_order_headers_def row_data_def dict_get_def)


lemma existing_tokens_read:
  "\<not> read_fails api \<Longrightarrow> existing_tokens api ws = set (sheet_tokens ws)"
  by (simp add: existing_tokens_def read_existing_def sheet_tokens_def split: sum.splits)

lemma sync_to_google_sheets_Some:
  "sync_to_google_sheets api (Some ws) leads =
     (let new_leads = filter (\<lambda>lead. dict_get lead ''request_token'' (PStr [])
                                \<notin> existing_tokens api ws) leads
      in if new_leads = [] then \<lparr>sheet_after = Some ws, batch = [], returned = 0\<rparr>
         else if append_fails api
         then \<lparr>sheet_after = Some ws, batch = map row_data new_leads, returned = 0\<rparr>
         else \<lparr>sheet_after = Some (ws @ map row_data new_leads), batch = map row_data new_leads,
                returned = int (length new_leads)\<rparr>)"
  by (simp add: sync_to_google_sheets_def sync_loop_filter Let_def)

text \<open>
  C1 (the code differs): the sheet holds the header row and one row with token "A", so
  the tokens read from it are {"A"}; the incoming leads carry the tokens "A", "B", "B".
  The set of tokens is not extended while the leads are visited, so the second lead
  with token "B" passes the membership test too: two rows are appended and the
  returned count is 2, and the sheet then holds token "B" twice.
\<close>

theorem sync_duplicate_incoming_token:
  "existing_tokens \<lparr>read_fails = False, append_fails = False\<rparr>
       [map PStr exact_order_headers, row_data [''request_token'' \<mapsto> PStr ''A'']]
     = {PStr ''A''}
   \<and> sync_to_google_sheets \<lparr>read_fails = False, append_fails = False\<rparr>
       (Some [map PStr exact_order_headers, row_data [''request_token'' \<mapsto> PStr ''A'']])
       [[''request_token'' \<mapsto> PStr ''A''],
        [''request_token'' \<mapsto> PStr ''B'', ''client_name'' \<mapsto> PStr ''first''],
        [''request_token'' \<mapsto> PStr ''B'', ''client_name'' \<mapsto> PStr ''second'']]
     = \<lparr>sheet_after = Some
          [map PStr exact_order_headers, row_data [''request_token'' \<mapsto> PStr ''A''],
           row_data [''request_token'' \<mapsto> PStr ''B'', ''client_name'' \<mapsto> PStr ''first''],
           row_data [''request_token'' \<mapsto> PStr ''B'', ''client_name'' \<mapsto> PStr ''second'']],
        batch =
          [row_data [''request_token'' \<mapsto> PStr ''B'', ''client_name'' \<mapsto> PStr ''first''],
           row_data [''request_token'' \<mapsto> PStr ''B'', ''client_name'' \<mapsto> PStr ''second'']],
        returned = 2\<rparr>
   \<and> sheet_tokens
       [map PStr exact_order_headers, row_data [''request_token'' \<mapsto> PStr ''A''],
        row_data [''request_token'' \<mapsto> PStr ''B'', ''client_name'' \<mapsto> PStr ''first''],
        row_data [''request_token'' \<mapsto> PStr ''B'', ''client_name'' \<mapsto> PStr ''second'']]
     = [PStr ''A'', PStr ''B'', PStr ''B'']"
proof -
  have t: "sheet_tokens
       [map PStr exact_order_headers, row_data [''request_token'' \<mapsto> PStr ''A''],
        row_data [''request_token'' \<mapsto> PStr ''B'', ''client_name'' \<mapsto> PStr ''first''],
        row_data [''request_token'' \<mapsto> PStr ''B'', ''client_name'' \<mapsto> PStr ''second'']]
     = [PStr ''A'', PStr ''B'', PStr ''B'']"
    by (simp add: sheet_tokens_def get_all_records_headers token_of_row_data)
      (simp add: dict_get_def)
  have e: "existing_tokens \<lparr>read_fails = False, append_fails = False\<rparr>
       [map PStr exact_order_headers, row_data [''request_token'' \<mapsto> PStr ''A'']]
     = {PStr ''A''}"
    by (simp add: existing_tokens_read sheet_tokens_def get_all_records_headers
        token_of_row_data) (simp add: dict_get_def)
  show ?thesis
    unfolding sync_to_google_sheets_Some e t by (simp add: dict_get_def)
qed







end
